theory Spec2Isabelle
  imports Complex_Main
begin

section \<open>Python values used by the helpers\<close>

text \<open>
  Python's \<^verbatim>\<open>str\<close> of an integer is its decimal rendering, with a leading minus
  sign for negative numbers. Python integers are unbounded, hence \<^typ>\<open>int\<close>.
\<close>

definition digit_char :: "nat \<Rightarrow> char" where
  "digit_char d = ''0123456789'' ! d"

fun str_nat :: "nat \<Rightarrow> string" where
  "str_nat n = (if n < 10 then [digit_char n] else str_nat (n div 10) @ [digit_char (n mod 10)])"

declare str_nat.simps [simp del]

definition str_int :: "int \<Rightarrow> string" where
  "str_int i = (if i < 0 then CHR ''-'' # str_nat (nat (- i)) else str_nat (nat i))"

text \<open>
  Exceptions as values. \<open>Exception\<close> is the plain \<^verbatim>\<open>Exception(msg)\<close> the module
  raises itself; \<open>TypeError\<close>, \<open>ValueError\<close> and \<open>AttributeError\<close> are Python's own;
  \<open>RedisError\<close> is what the store client raises for a connection that fails or a command
  the store rejects; \<open>JWTError\<close> and \<open>ExpiredSignatureError\<close> come from the token
  library, \<open>OverflowError\<close> from date arithmetic, \<open>RequestException\<close> from the HTTP
  client.
\<close>

datatype error =
    Exception string
  | TypeError string
  | ValueError string
  | AttributeError string
  | RedisError string
  | JWTError string
  | ExpiredSignatureError
  | OverflowError
  | RequestException string

section \<open>The expiring key-value store and its client\<close>

text \<open>
  Modelled from the spec: the store client (the \<^verbatim>\<open>redis\<close> package) is not part of the
  repository. The spec describes the store as an expiring key-value store reachable by
  URL, with get / set-with-expiry / delete semantics, whose entries are discarded when
  their time-to-live has elapsed. A store is a map from keys to the stored bytes and the
  absolute time (in seconds) at which the entry expires; the clock is passed to every
  operation, and an integer is stored as its decimal rendering.

  The client is what \<^verbatim>\<open>redis.from_url(url, **kwargs)\<close> returns. It is built without
  contacting the store: the keyword arguments are only recorded, and handed to the
  connection that every command opens first. The connection accepts the keywords of
  \<open>known_kwargs\<close> (those of the connection pool and connection classes) and raises \<^verbatim>\<open>TypeError\<close> on any other; then it fails when the store
  cannot be reached. A reply is bytes, or text when the keyword \<^verbatim>\<open>decode_responses\<close>
  was given. Keywords are recorded by name.
\<close>

record redis =
  connection_kwargs :: "string list"
  reachable :: bool
  kv :: "string \<rightharpoonup> string \<times> int"

datatype redis_value = Bytes string | Text string

definition known_kwargs :: "string list" where
  "known_kwargs =
     [''host'', ''port'', ''db'', ''username'', ''password'', ''socket_timeout'',
      ''socket_connect_timeout'', ''socket_keepalive'', ''socket_keepalive_options'',
      ''socket_type'', ''socket_read_size'', ''retry_on_timeout'', ''retry_on_error'',
      ''retry'', ''encoding'', ''encoding_errors'', ''decode_responses'', ''parser_class'',
      ''health_check_interval'', ''client_name'', ''max_connections'',
      ''connection_class'']"

definition from_url ::
  "string option \<Rightarrow> bool \<Rightarrow> (string \<rightharpoonup> string \<times> int) \<Rightarrow> string list \<Rightarrow> error + redis" where
  "from_url redis_url up contents kwargs =
     (case redis_url of
        None \<Rightarrow> Inl (AttributeError ''NoneType object has no attribute startswith'')
      | Some u \<Rightarrow>
          if take 8 u = ''redis://'' \<or> take 9 u = ''rediss://'' \<or> take 7 u = ''unix://''
          then Inr \<lparr>connection_kwargs = kwargs, reachable = up, kv = contents\<rparr>
          else Inl (ValueError ''Redis URL must specify one of the supported schemes''))"

definition get_connection :: "redis \<Rightarrow> error + unit" where
  "get_connection c =
     (case filter (\<lambda>k. k \<notin> set known_kwargs) (connection_kwargs c) of
        k # ks \<Rightarrow> Inl (TypeError (''unexpected keyword argument '' @ k))
      | [] \<Rightarrow> if reachable c then Inr () else Inl (RedisError ''connection refused''))"

definition redis_ping :: "redis \<Rightarrow> error + unit" where
  "redis_ping c = get_connection c"

definition redis_get :: "redis \<Rightarrow> int \<Rightarrow> string \<Rightarrow> error + redis_value option" where
  "redis_get c now k =
     (case get_connection c of
        Inl e \<Rightarrow> Inl e
      | Inr _ \<Rightarrow>
          Inr (case kv c k of
                 None \<Rightarrow> None
               | Some (v, deadline) \<Rightarrow>
                   if now < deadline
                   then Some (if ''decode_responses'' \<in> set (connection_kwargs c)
                              then Text v else Bytes v)
                   else None))"

definition redis_setex :: "redis \<Rightarrow> int \<Rightarrow> string \<Rightarrow> int \<Rightarrow> string \<Rightarrow> error + redis" where
  "redis_setex c now k ttl v =
     (case get_connection c of
        Inl e \<Rightarrow> Inl e
      | Inr _ \<Rightarrow>
          if ttl \<le> 0 then Inl (RedisError ''invalid expire time'')
          else Inr (c\<lparr>kv := (kv c)(k \<mapsto> (v, now + ttl))\<rparr>))"

definition redis_delete :: "redis \<Rightarrow> string \<Rightarrow> error + redis" where
  "redis_delete c k =
     (case get_connection c of
        Inl e \<Rightarrow> Inl e
      | Inr _ \<Rightarrow> Inr (c\<lparr>kv := (kv c)(k := None)\<rparr>))"

text \<open>
  Python's \<^verbatim>\<open>str\<close> of a reply: a text is itself, bytes are rendered as
  \<^verbatim>\<open>b'...'\<close> (the rendering of bytes free of quotes, backslashes and unprintable
  bytes, which is all an integer writes). A reply is false when it is empty.
\<close>

definition py_str :: "redis_value \<Rightarrow> string" where
  "py_str v = (case v of Text s \<Rightarrow> s | Bytes b \<Rightarrow> ''b'' @ [CHR 0x27] @ b @ [CHR 0x27])"

definition falsy :: "redis_value \<Rightarrow> bool" where
  "falsy v = (case v of Text s \<Rightarrow> s = [] | Bytes b \<Rightarrow> b = [])"

section \<open>authorization.py: the OTP helpers\<close>

text \<open>
  The module-level variable \<^verbatim>\<open>r\<close> is \<^verbatim>\<open>None\<close> or a client; it is a
  \<^typ>\<open>redis option\<close> here and is threaded through the functions.

  Module initialisation (lines 35 to 47):
  \<^verbatim>\<open>
  redis_url = os.getenv("REDIS_URL")
  r = None
  try:
      r = redis.from_url(redis_url, decode_response=True)
      r.ping()
      print("Successfully connected to Redis.")
  except Exception as e:
      print(f"Could not connect to Redis: {e}")
  \<close>
  The environment gives the URL and the store found there (whether it answers, and what
  it holds). The keyword is passed as the source spells it, \<^verbatim>\<open>decode_response\<close>.
  The assignment to \<^verbatim>\<open>r\<close> happens before the ping, so an exception raised by the
  ping leaves \<^verbatim>\<open>r\<close> assigned. The second component is the fixed part of what gets
  printed.
\<close>

definition module_init ::
  "string option \<Rightarrow> bool \<Rightarrow> (string \<rightharpoonup> string \<times> int) \<Rightarrow> redis option \<times> string" where
  "module_init redis_url up contents =
     (case from_url redis_url up contents [''decode_response''] of
        Inl e \<Rightarrow> (None, ''Could not connect to Redis'')
      | Inr c \<Rightarrow>
          (case redis_ping c of
             Inl e \<Rightarrow> (Some c, ''Could not connect to Redis'')
           | Inr _ \<Rightarrow> (Some c, ''Successfully connected to Redis.'')))"

definition otp_key :: "string \<Rightarrow> string" where
  "otp_key email = ''otp:'' @ email"

text \<open>
  \<^verbatim>\<open>timedelta(minutes=m)\<close>, in seconds: a duration of more than 999999999 days in
  either direction raises \<^verbatim>\<open>OverflowError\<close>.
\<close>

definition timedelta_minutes :: "int \<Rightarrow> error + int" where
  "timedelta_minutes m =
     (if m div 1440 < - 999999999 \<or> 999999999 < m div 1440 then Inl OverflowError
      else Inr (60 * m))"

text \<open>
  \<^verbatim>\<open>generate_otp(email, expire_minutes=5)\<close>. The random generator is the parameter
  \<open>randint\<close>, called with the bounds the source gives it. The result is what the call
  returns or raises, together with \<^verbatim>\<open>r\<close> after the call.
\<close>

definition generate_otp ::
  "redis option \<Rightarrow> int \<Rightarrow> string \<Rightarrow> int \<Rightarrow> (int \<Rightarrow> int \<Rightarrow> int) \<Rightarrow>
   (error + int) \<times> redis option" where
  "generate_otp r now email expire_minutes randint =
     (case r of
        None \<Rightarrow> (Inl (Exception ''Redis client is not connected.''), r)
      | Some c \<Rightarrow>
          (let otp = randint 100000 999999;
               redis_key = otp_key email
           in case timedelta_minutes expire_minutes of
                Inl e \<Rightarrow> (Inl e, r)
              | Inr ttl \<Rightarrow>
                  (case redis_setex c now redis_key ttl (str_int otp) of
                     Inl e \<Rightarrow> (Inl e, r)
                   | Inr c' \<Rightarrow> (Inr otp, Some c'))))"

text \<open>
  \<^verbatim>\<open>verify_otp(email, otp_input: int)\<close>. The result is what the call returns or
  raises, together with \<^verbatim>\<open>r\<close> after the call.
\<close>

definition verify_otp ::
  "redis option \<Rightarrow> int \<Rightarrow> string \<Rightarrow> int \<Rightarrow> (error + bool) \<times> redis option" where
  "verify_otp r now email otp_input =
     (case r of
        None \<Rightarrow> (Inr False, r)
      | Some c \<Rightarrow>
          (let redis_key = otp_key email
           in case redis_get c now redis_key of
                Inl e \<Rightarrow> (Inl e, r)
              | Inr stored_otp \<Rightarrow>
                  (case stored_otp of
                     None \<Rightarrow> (Inr False, r)
                   | Some v \<Rightarrow>
                       if falsy v then (Inr False, r)
                       else if py_str v \<noteq> str_int otp_input then (Inr False, r)
                       else (case redis_delete c redis_key of
                               Inl e \<Rightarrow> (Inl e, r)
                             | Inr c' \<Rightarrow> (Inr True, Some c')))))"

text \<open>A random generator that always draws the same value, to run the helpers on.\<close>

definition randint_const :: "int \<Rightarrow> int \<Rightarrow> int \<Rightarrow> int" where
  "randint_const v a b = v"

section \<open>authorization.py: access tokens\<close>

text \<open>
  Modelled from the spec: the token library (\<^verbatim>\<open>jose.jwt\<close>) is not part of the
  repository, and the repository never decodes a token itself. The spec describes an
  access token as a claim set {subject, expiry} signed with a shared secret and a fixed
  algorithm; signing fails only when that configuration is absent, and decoding fails once
  the clock passes the encoded expiry. A token is kept symbolically as the claim set
  together with the secret and algorithm that signed it; times are whole seconds since
  the epoch, which is the precision of the \<^verbatim>\<open>exp\<close> claim.
\<close>

record claims =
  sub :: string
  exp_claim :: int

datatype token = Token claims string string






section \<open>app.py: the HTTP helpers\<close>

text \<open>
  A request as handed to \<^verbatim>\<open>requests.post\<close>, and what comes back. The network and
  the remote server are the parameter \<open>post\<close>: it raises or returns a response. The
  body of a response is read with \<^verbatim>\<open>response.json()\<close>, which raises on a body that
  is not JSON; only its \<^verbatim>\<open>detail\<close> text is ever looked up.
\<close>

datatype json = JString string | JNumber rat

record request =
  url :: string
  json_body :: "string \<rightharpoonup> json"
  headers :: "string \<rightharpoonup> string"

record response =
  status_code :: int
  response_json :: "error + (string \<rightharpoonup> string)"

definition error_message :: "error \<Rightarrow> string" where
  "error_message e =
     (case e of
        Exception m \<Rightarrow> m
      | TypeError m \<Rightarrow> m
      | ValueError m \<Rightarrow> m
      | AttributeError m \<Rightarrow> m
      | RedisError m \<Rightarrow> m
      | JWTError m \<Rightarrow> m
      | ExpiredSignatureError \<Rightarrow> ''Signature has expired.''
      | OverflowError \<Rightarrow> ''date value out of range''
      | RequestException m \<Rightarrow> m)"

text \<open>\<^verbatim>\<open>get_headers()\<close>; \<open>token\<close> is \<^verbatim>\<open>st.session_state.token\<close>.\<close>

definition get_headers :: "string option \<Rightarrow> (string \<rightharpoonup> string)" where
  "get_headers token =
     (let headers = [''Content-Type'' \<mapsto> ''application/json'']
      in case token of
           None \<Rightarrow> headers
         | Some t \<Rightarrow> if t = [] then headers
                     else headers(''Authorization'' \<mapsto> ''Bearer '' @ t))"

text \<open>A \<^verbatim>\<open>datetime.date\<close> and its \<^verbatim>\<open>isoformat()\<close>, \<^verbatim>\<open>YYYY-MM-DD\<close>.\<close>

record date =
  year :: nat
  month :: nat
  day :: nat

definition zfill :: "nat \<Rightarrow> string \<Rightarrow> string" where
  "zfill w s = replicate (w - length s) CHR ''0'' @ s"

definition isoformat :: "date \<Rightarrow> string" where
  "isoformat d =
     zfill 4 (str_nat (year d)) @ ''-'' @ zfill 2 (str_nat (month d)) @ ''-''
       @ zfill 2 (str_nat (day d))"

text \<open>
  \<^verbatim>\<open>update_expense(expense_id, category=None, amount=None, expense_date=None)\<close>.
  The category is \<^verbatim>\<open>None\<close> or a text, the amount \<^verbatim>\<open>None\<close> or the number
  entered in the form (a finite float, kept as the rational it denotes, so that
  \<^verbatim>\<open>float(amount)\<close> is the number itself), the date \<^verbatim>\<open>None\<close> or a date.
  An \<^verbatim>\<open>if x:\<close> test fails for \<^verbatim>\<open>None\<close>, for the empty text and for zero;
  a date is always true. The result is the request that was sent and the pair the
  function returns.
\<close>

definition update_expense ::
  "(request \<Rightarrow> error + response) \<Rightarrow> string \<Rightarrow> string option \<Rightarrow> int \<Rightarrow>
   string option \<Rightarrow> rat option \<Rightarrow> date option \<Rightarrow> request \<times> (bool \<times> string)" where
  "update_expense post api_base_url token expense_id category amount expense_date =
     (let data0 = Map.empty;
          data1 = (case category of
                     None \<Rightarrow> data0
                   | Some c \<Rightarrow> if c = [] then data0 else data0(''category'' \<mapsto> JString c));
          data2 = (case amount of
                     None \<Rightarrow> data1
                   | Some a \<Rightarrow> if a = 0 then data1 else data1(''amount'' \<mapsto> JNumber a));
          data3 = (case expense_date of
                     None \<Rightarrow> data2
                   | Some d \<Rightarrow> data2(''date'' \<mapsto> JString (isoformat d)));
          req = \<lparr>url = api_base_url @ ''/update_expense/'' @ str_int expense_id,
                 json_body = data3,
                 headers = get_headers token\<rparr>
      in (req,
          case post req of
            Inl e \<Rightarrow> (False, ''Error: '' @ error_message e)
          | Inr resp \<Rightarrow>
              if status_code resp = 200 then (True, ''Expense updated successfully!'')
              else (case response_json resp of
                      Inl e \<Rightarrow> (False, ''Error: '' @ error_message e)
                    | Inr body \<Rightarrow>
                        (False, case body ''detail'' of
                                  None \<Rightarrow> ''Failed to update expense''
                                | Some d \<Rightarrow> d))))"

section \<open>app.py: the registration form\<close>

text \<open>
  The handler of the second registration step (lines 269 to 284) as the list of calls it
  makes, in order: the messages it shows, the call of \<^verbatim>\<open>verify_otp_and_register\<close>
  (the only place where this form reaches the network) and the removal of the pending
  e-mail from the session. What \<^verbatim>\<open>verify_otp_and_register\<close> returns is the
  parameter \<open>api\<close>. Texts are true when they are not empty.
\<close>

datatype st_call =
    St_success string
  | St_info string
  | St_error string
  | St_warning string
  | Verify_otp_and_register string string string
  | Del_reg_email

definition register_step2 ::
  "(string \<Rightarrow> string \<Rightarrow> string \<Rightarrow> bool \<times> string) \<Rightarrow> string \<Rightarrow> bool \<Rightarrow>
   string \<Rightarrow> string \<Rightarrow> string \<Rightarrow> st_call list" where
  "register_step2 api reg_email submit_reg otp reg_password confirm_password =
     (if submit_reg then
        if otp \<noteq> [] \<and> reg_password \<noteq> [] then
          if reg_password = confirm_password then
            (case api reg_email otp reg_password of
               (success, message) \<Rightarrow>
                 Verify_otp_and_register reg_email otp reg_password #
                   (if success then
                      [St_success message, St_info ''Please login with your credentials'',
                       Del_reg_email]
                    else [St_error message]))
          else [St_error ''Passwords do not match'']
        else [St_warning ''Please fill in all fields'']
      else [])"

definition is_network_call :: "st_call \<Rightarrow> bool" where
  "is_network_call c = (case c of Verify_otp_and_register e p q \<Rightarrow> True | _ \<Rightarrow> False)"

text \<open>
  A registration endpoint that accepts every request; it stands for the remote server
  when the form handler is evaluated on a concrete submission.
\<close>

definition api_accepts :: "string \<Rightarrow> string \<Rightarrow> string \<Rightarrow> bool \<times> string" where
  "api_accepts email otp password = (True, ''Registration successful!'')"

section \<open>Decimal rendering\<close>

lemma less_10_cases:
  "d < (10::nat) \<Longrightarrow>
   d = 0 \<or> d = 1 \<or> d = 2 \<or> d = 3 \<or> d = 4 \<or> d = 5 \<or> d = 6 \<or> d = 7 \<or> d = 8 \<or> d = 9"
  by arith

lemma str_nat_not_Nil: "str_nat n \<noteq> []"
  by (simp add: str_nat.simps [of n])

lemma str_int_not_Nil: "str_int i \<noteq> []"
  by (simp add: str_int_def str_nat_not_Nil)

lemma digit_char_not_b: "d < 10 \<Longrightarrow> digit_char d \<noteq> CHR ''b''"
  using less_10_cases [of d] by (auto simp: digit_char_def)

lemma hd_str_nat_not_b: "hd (str_nat n) \<noteq> CHR ''b''"
proof (induction n rule: str_nat.induct)
  case (1 n)
  show ?case
  proof (cases "n < 10")
    case True
    then show ?thesis
      by (simp add: str_nat.simps [of n] digit_char_not_b)
  next
    case False
    with "1" have "hd (str_nat (n div 10)) \<noteq> CHR ''b''" by simp
    with False show ?thesis
      by (simp add: str_nat.simps [of n] str_nat_not_Nil)
  qed
qed

lemma hd_str_int_not_b: "hd (str_int i) \<noteq> CHR ''b''"
  by (simp add: str_int_def hd_str_nat_not_b)

lemma py_str_Bytes_not_str_int: "py_str (Bytes b) \<noteq> str_int i"
proof
  assume "py_str (Bytes b) = str_int i"
  then have "hd (str_int i) = CHR ''b''"
    by (simp add: py_str_def flip: \<open>py_str (Bytes b) = str_int i\<close>)
  with hd_str_int_not_b show False by blast
qed

lemma str_int_123456: "str_int 123456 = ''123456''"
  by (simp add: str_int_def str_nat.simps digit_char_def)

section \<open>What the OTP helpers do with the module's client\<close>

lemma get_connection_misspelt:
  "connection_kwargs c = [''decode_response''] \<Longrightarrow>
   get_connection c = Inl (TypeError ''unexpected keyword argument decode_response'')"
  by (simp add: get_connection_def known_kwargs_def)

lemma module_init_client:
  "take 8 u = ''redis://'' \<Longrightarrow>
   module_init (Some u) up contents =
     (Some \<lparr>connection_kwargs = [''decode_response''], reachable = up, kv = contents\<rparr>,
      ''Could not connect to Redis'')"
  by (simp add: module_init_def from_url_def redis_ping_def get_connection_misspelt)

lemma module_init_kwargs:
  "fst (module_init redis_url up contents) = Some c \<Longrightarrow>
   connection_kwargs c = [''decode_response'']"
  by (auto simp: module_init_def from_url_def split: option.splits if_splits sum.splits)

lemma verify_otp_None: "verify_otp None now email otp_input = (Inr False, None)"
  by (simp add: verify_otp_def)

lemma generate_otp_None:
  "generate_otp None now email m randint
     = (Inl (Exception ''Redis client is not connected.''), None)"
  by (simp add: generate_otp_def)

lemma verify_otp_misspelt:
  "connection_kwargs c = [''decode_response''] \<Longrightarrow>
   verify_otp (Some c) now email otp_input
     = (Inl (TypeError ''unexpected keyword argument decode_response''), Some c)"
  by (simp add: verify_otp_def redis_get_def get_connection_misspelt)

lemma generate_otp_misspelt:
  "connection_kwargs c = [''decode_response''] \<Longrightarrow>
   generate_otp (Some c) now email 5 randint
     = (Inl (TypeError ''unexpected keyword argument decode_response''), Some c)"
  by (simp add: generate_otp_def timedelta_minutes_def redis_setex_def get_connection_misspelt)

text \<open>
  Whatever the environment, the client the module builds never lets \<open>verify_otp\<close>
  return true and never lets \<open>generate_otp\<close> return a code.
\<close>

lemma verify_otp_never_true:
  "fst (verify_otp (fst (module_init redis_url up contents)) now email otp_input) \<noteq> Inr True"
proof (cases "fst (module_init redis_url up contents)")
  case None
  then show ?thesis by (simp add: verify_otp_None)
next
  case (Some c)
  then have "connection_kwargs c = [''decode_response'']"
    by (rule module_init_kwargs)
  with Some show ?thesis by (simp add: verify_otp_misspelt)
qed

lemma generate_otp_never_returns:
  "\<exists>e. fst (generate_otp (fst (module_init redis_url up contents)) now email 5 randint) = Inl e"
proof (cases "fst (module_init redis_url up contents)")
  case None
  then show ?thesis by (simp add: generate_otp_None)
next
  case (Some c)
  then have "connection_kwargs c = [''decode_response'']"
    by (rule module_init_kwargs)
  with Some show ?thesis by (simp add: generate_otp_misspelt)
qed

subsection \<open>The client the keyword was meant to build\<close>

text \<open>
  For comparison, a client built with the keyword \<^verbatim>\<open>decode_responses\<close> on a store
  that answers: generation stores the drawn code for 300 seconds and verification
  succeeds exactly on the stored text, deleting the key. A client built with no keyword
  gets bytes back, whose rendering never equals the rendering of an integer.
\<close>

lemma get_connection_decoding:
  "connection_kwargs c = [''decode_responses''] \<Longrightarrow> reachable c \<Longrightarrow> get_connection c = Inr ()"
  by (simp add: get_connection_def known_kwargs_def)

lemma generate_otp_decoding_client:
  "connection_kwargs c = [''decode_responses''] \<Longrightarrow> reachable c \<Longrightarrow>
   generate_otp (Some c) now email 5 randint
     = (Inr (randint 100000 999999),
        Some (c\<lparr>kv := (kv c)(otp_key email \<mapsto> (str_int (randint 100000 999999), now + 300))\<rparr>))"
  by (simp add: generate_otp_def timedelta_minutes_def redis_setex_def get_connection_decoding
        Let_def)

lemma verify_otp_decoding_client:
  "connection_kwargs c = [''decode_responses''] \<Longrightarrow> reachable c \<Longrightarrow>
   verify_otp (Some c) now email otp_input =
     (case kv c (otp_key email) of
        None \<Rightarrow> (Inr False, Some c)
      | Some (s, deadline) \<Rightarrow>
          if now < deadline \<and> s = str_int otp_input
          then (Inr True, Some (c\<lparr>kv := (kv c)(otp_key email := None)\<rparr>))
          else (Inr False, Some c))"
  by (simp add: verify_otp_def redis_get_def redis_delete_def get_connection_decoding
        py_str_def falsy_def str_int_not_Nil Let_def split: option.splits prod.splits)

lemma verify_otp_bytes_client:
  "connection_kwargs c = [] \<Longrightarrow> fst (verify_otp (Some c) now email otp_input) \<noteq> Inr True"
  by (simp add: verify_otp_def redis_get_def get_connection_def py_str_Bytes_not_str_int
        Let_def split: option.splits prod.splits sum.splits)

subsection \<open>Verifying a stored code\<close>

text \<open>
  Claim C1 says that \<open>verify_otp\<close> returns true exactly when a code is stored under the
  key of the e-mail and its text equals the text of the submitted code, and deletes the
  key then. On the module's client it does not: with the store up and holding 123456 for
  the e-mail, verifying 123456 passes the guard \<^verbatim>\<open>r is None\<close>, and
  \<^verbatim>\<open>r.get\<close> raises \<^verbatim>\<open>TypeError\<close> for the keyword \<^verbatim>\<open>decode_response\<close>;
  nothing is returned and the key stays.
\<close>

theorem verify_otp_stored_code_raises:
  "verify_otp
     (fst (module_init (Some ''redis://localhost:6379'') True
             [otp_key ''a@b.com'' \<mapsto> (''123456'', 300)]))
     10 ''a@b.com'' 123456
   = (Inl (TypeError ''unexpected keyword argument decode_response''),
      Some \<lparr>connection_kwargs = [''decode_response''], reachable = True,
            kv = [otp_key ''a@b.com'' \<mapsto> (''123456'', 300)]\<rparr>)"
  by (simp add: module_init_client verify_otp_misspelt)

subsection \<open>Generating a code\<close>

text \<open>
  Claim C2 says that \<open>generate_otp\<close> stores a code drawn from 100000 to 999999 under
  the key of the e-mail for five minutes and returns it. On the module's client it does
  not: with the store up, \<^verbatim>\<open>r.setex\<close> raises \<^verbatim>\<open>TypeError\<close> for the keyword
  \<^verbatim>\<open>decode_response\<close>; no code is returned and the store holds what it held.
\<close>

theorem generate_otp_raises_stores_nothing:
  "generate_otp
     (fst (module_init (Some ''redis://localhost:6379'') True
             [otp_key ''a@b.com'' \<mapsto> (''111111'', 7)]))
     0 ''a@b.com'' 5 (randint_const 123456)
   = (Inl (TypeError ''unexpected keyword argument decode_response''),
      Some \<lparr>connection_kwargs = [''decode_response''], reachable = True,
            kv = [otp_key ''a@b.com'' \<mapsto> (''111111'', 7)]\<rparr>)"
  by (simp add: module_init_client generate_otp_misspelt)

subsection \<open>Generating, then verifying\<close>

text \<open>
  Claim C3 says that after \<open>generate_otp\<close> a first \<open>verify_otp\<close> with the returned code
  returns true and a second returns false. On the module's client the sequence does not
  start: with the store up and empty, \<open>generate_otp\<close> raises, and \<open>verify_otp\<close> on
  what it leaves raises as well, for any code.
\<close>

theorem generate_then_verify_raises:
  "fst (generate_otp (fst (module_init (Some ''redis://localhost:6379'') True Map.empty))
          0 ''a@b.com'' 5 (randint_const 123456))
     = Inl (TypeError ''unexpected keyword argument decode_response'')
   \<and> fst (verify_otp
            (snd (generate_otp
                    (fst (module_init (Some ''redis://localhost:6379'') True Map.empty))
                    0 ''a@b.com'' 5 (randint_const 123456)))
            10 ''a@b.com'' 123456)
     = Inl (TypeError ''unexpected keyword argument decode_response'')"
  by (simp add: module_init_client generate_otp_misspelt verify_otp_misspelt)

subsection \<open>A store that is down when the module loads\<close>

text \<open>
  Claim C5 says that with a client that is not connected \<open>verify_otp\<close> returns false
  and \<open>generate_otp\<close> raises the explicit error. That holds when \<^verbatim>\<open>r\<close> is
  \<^verbatim>\<open>None\<close> (\<open>verify_otp_None\<close>, \<open>generate_otp_None\<close>). It fails when the store is
  down while the module loads: \<^verbatim>\<open>from_url\<close> returns a client, the ping raises, and
  \<^verbatim>\<open>r\<close> keeps the client that never connected. Both guards \<^verbatim>\<open>r is None\<close>
  are then passed, \<open>verify_otp\<close> raises the client's error instead of returning false,
  and \<open>generate_otp\<close> raises the client's error instead of the explicit one.
\<close>

theorem verify_otp_unreachable_store_raises:
  "fst (module_init (Some ''redis://localhost:6379'') False Map.empty)
     = Some \<lparr>connection_kwargs = [''decode_response''], reachable = False, kv = Map.empty\<rparr>
   \<and> verify_otp (fst (module_init (Some ''redis://localhost:6379'') False Map.empty))
        0 ''a@b.com'' 123456
     = (Inl (TypeError ''unexpected keyword argument decode_response''),
        Some \<lparr>connection_kwargs = [''decode_response''], reachable = False, kv = Map.empty\<rparr>)
   \<and> generate_otp (fst (module_init (Some ''redis://localhost:6379'') False Map.empty))
        0 ''a@b.com'' 5 (randint_const 123456)
     = (Inl (TypeError ''unexpected keyword argument decode_response''),
        Some \<lparr>connection_kwargs = [''decode_response''], reachable = False, kv = Map.empty\<rparr>)"
  by (simp add: module_init_client verify_otp_misspelt generate_otp_misspelt)

subsection \<open>A wrong guess\<close>


section \<open>What the access token carries\<close>



section \<open>The registration form and mismatched passwords\<close>

text \<open>
  Claim C8, as stated, fails on a submission whose passwords differ while the OTP field
  is empty: the handler tests the empty fields first and shows the warning about
  missing fields, not an error.
\<close>

theorem register_step2_empty_otp_counterexample:
  "''secret1'' \<noteq> ''secret2''
   \<and> register_step2 api_accepts ''a@b.com'' True [] ''secret1'' ''secret2''
       = [St_warning ''Please fill in all fields'']"
  by (simp add: register_step2_def)

text \<open>
  Claim C8, amended. In the registration form, whenever the entered password and the
  confirmation differ, no call of \<^verbatim>\<open>verify_otp_and_register\<close> (no network call) is
  made; a submission with a non-empty OTP and password is rejected with the error
  "Passwords do not match", and a submission with an empty OTP or password is rejected
  with the warning "Please fill in all fields".
\<close>

theorem register_step2_mismatch:
  assumes "reg_password \<noteq> confirm_password"
  shows "\<not> list_ex is_network_call
              (register_step2 api reg_email submit_reg otp reg_password confirm_password)
         \<and> (submit_reg \<and> otp \<noteq> [] \<and> reg_password \<noteq> [] \<longrightarrow>
              register_step2 api reg_email submit_reg otp reg_password confirm_password
                = [St_error ''Passwords do not match''])
         \<and> (submit_reg \<and> (otp = [] \<or> reg_password = []) \<longrightarrow>
              register_step2 api reg_email submit_reg otp reg_password confirm_password
                = [St_warning ''Please fill in all fields''])"
  using assms by (auto simp: register_step2_def is_network_call_def)

theorem register_step2_mismatch_witness:
  "\<not> list_ex is_network_call
        (register_step2 api_accepts ''a@b.com'' True ''123456'' ''secret1'' ''secret2'')
   \<and> register_step2 api_accepts ''a@b.com'' True ''123456'' ''secret1'' ''secret2''
       = [St_error ''Passwords do not match'']"
proof -
  have h: "''secret1'' \<noteq> ''secret2''" by simp
  from register_step2_mismatch [OF h, of api_accepts "''a@b.com''" True "''123456''"]
  show ?thesis by (simp add: is_network_call_def)
qed

section \<open>The payload of an expense update\<close>

lemma update_expense_json_body:
  "json_body (fst (update_expense post base token expense_id category amount expense_date)) k =
     (if k = ''date'' then map_option (\<lambda>d. JString (isoformat d)) expense_date
      else if k = ''amount'' then (case amount of None \<Rightarrow> None
                                   | Some a \<Rightarrow> if a = 0 then None else Some (JNumber a))
      else if k = ''category'' then (case category of None \<Rightarrow> None
                                   | Some c \<Rightarrow> if c = [] then None else Some (JString c))
      else None)"
  by (simp add: update_expense_def Let_def split: option.splits)

text \<open>
  Claim C10. For every expense id, the payload \<open>update_expense\<close> sends has the key
  \<^verbatim>\<open>category\<close> exactly when the category is a non-empty text, the key
  \<^verbatim>\<open>amount\<close> exactly when the amount is a number other than zero, and the key
  \<^verbatim>\<open>date\<close> exactly when a date is given; in particular the payload never carries
  the amount 0.
\<close>

theorem update_expense_omits_falsy:
  "(''category'' \<in> dom (json_body (fst (update_expense post base token expense_id
                                         category amount expense_date)))
      \<longleftrightarrow> (\<exists>c. category = Some c \<and> c \<noteq> []))
   \<and> (''amount'' \<in> dom (json_body (fst (update_expense post base token expense_id
                                         category amount expense_date)))
      \<longleftrightarrow> (\<exists>a. amount = Some a \<and> a \<noteq> 0))
   \<and> (''date'' \<in> dom (json_body (fst (update_expense post base token expense_id
                                         category amount expense_date)))
      \<longleftrightarrow> expense_date \<noteq> None)
   \<and> json_body (fst (update_expense post base token expense_id
                        category amount expense_date)) ''amount''
        \<noteq> Some (JNumber 0)"
  by (auto simp: dom_def update_expense_json_body split: option.splits)

end
